theory Spec2Isabelle
  imports Main "HOL-Library.Word" "HOL-Library.AList"
begin

unbundle bit_operations_syntax

section \<open>String Analysis API: the analyser, the store, the filters, the phrase parser\<close>

text \<open>
  The development follows \<^verbatim>\<open>src/app.py\<close>. A Python \<^verbatim>\<open>str\<close> is a sequence of
  code points; here a text is a \<^typ>\<open>string\<close> whose characters are read as the code
  points 0 to 255, so \<^const>\<open>length\<close> counts what Python's \<^verbatim>\<open>len\<close> counts.
  The module-level dictionary \<^verbatim>\<open>strings_db\<close> is passed in and returned explicitly,
  an exception the code raises is an \<open>Inl\<close> result, and the reading of the clock
  (\<^verbatim>\<open>datetime.utcnow().isoformat()\<close>) is an argument of the functions that take it.
\<close>

subsection \<open>Characters: \<^verbatim>\<open>str.lower\<close>, whitespace, digits\<close>

definition code :: "char \<Rightarrow> nat" where
  "code c = of_char c"

text \<open>
  \<^verbatim>\<open>str.lower\<close> on a text of code points below 256: the letters A to Z and the
  capital letters 192 to 222 of the Latin-1 block (215, the multiplication sign, is
  no letter) move up by 32; every other code point is kept. On such a text
  \<^verbatim>\<open>str.lower\<close> acts on each character by itself. On other texts it does not (a
  capital sigma is lower-cased according to its neighbours); those are outside this
  development. The general statements below use of \<^verbatim>\<open>lower\<close> only that it maps
  texts to texts and leaves a single letter from a to z as it is; the examples evaluate
  it on ASCII texts.
\<close>

definition lower_char :: "char \<Rightarrow> char" where
  "lower_char c =
     (if (65 \<le> code c \<and> code c \<le> 90) \<or> (192 \<le> code c \<and> code c \<le> 222 \<and> code c \<noteq> 215)
      then char_of (code c + 32) else c)"

definition lower :: "string \<Rightarrow> string" where
  "lower text = map lower_char text"

text \<open>The characters \<^verbatim>\<open>str.split()\<close> treats as separators (\<^verbatim>\<open>str.isspace\<close>).\<close>

definition is_space :: "char \<Rightarrow> bool" where
  "is_space c =
     ((9 \<le> code c \<and> code c \<le> 13) \<or> (28 \<le> code c \<and> code c \<le> 32) \<or> code c = 133 \<or> code c = 160)"

text \<open>The characters the pattern \<^verbatim>\<open>\d\<close> matches, and the class \<^verbatim>\<open>[a-z]\<close>.\<close>

definition is_digit :: "char \<Rightarrow> bool" where
  "is_digit c = (48 \<le> code c \<and> code c \<le> 57)"

definition is_az :: "char \<Rightarrow> bool" where
  "is_az c = (97 \<le> code c \<and> code c \<le> 122)"

subsection \<open>\<^verbatim>\<open>hashlib.sha256(text.encode()).hexdigest()\<close>\<close>

type_synonym u32 = "32 word"

type_synonym byte = "8 word"

text \<open>\<^verbatim>\<open>str.encode()\<close> is UTF-8: one byte below 128, two bytes from 128 to 255.\<close>

definition encode_char :: "char \<Rightarrow> byte list" where
  "encode_char c =
     (if code c < 128 then [of_nat (code c)]
      else [192 OR of_nat (code c div 64), 128 OR of_nat (code c mod 64)])"

definition encode :: "string \<Rightarrow> byte list" where
  "encode text = concat (map encode_char text)"

text \<open>
  The round constants, in decimal: the first 32 bits of the fractional parts of the cube
  roots of the first 64 primes.
\<close>

definition sha_k :: "u32 list" where
  "sha_k =
    [1116352408, 1899447441, 3049323471, 3921009573, 961987163, 1508970993,
     2453635748, 2870763221, 3624381080, 310598401, 607225278, 1426881987,
     1925078388, 2162078206, 2614888103, 3248222580, 3835390401, 4022224774,
     264347078, 604807628, 770255983, 1249150122, 1555081692, 1996064986,
     2554220882, 2821834349, 2952996808, 3210313671, 3336571891, 3584528711,
     113926993, 338241895, 666307205, 773529912, 1294757372, 1396182291,
     1695183700, 1986661051, 2177026350, 2456956037, 2730485921, 2820302411,
     3259730800, 3345764771, 3516065817, 3600352804, 4094571909, 275423344,
     430227734, 506948616, 659060556, 883997877, 958139571, 1322822218,
     1537002063, 1747873779, 1955562222, 2024104815, 2227730452, 2361852424,
     2428436474, 2756734187, 3204031479, 3329325298]"

definition big_sigma0 :: "u32 \<Rightarrow> u32" where
  "big_sigma0 x = word_rotr 2 x XOR word_rotr 13 x XOR word_rotr 22 x"

definition big_sigma1 :: "u32 \<Rightarrow> u32" where
  "big_sigma1 x = word_rotr 6 x XOR word_rotr 11 x XOR word_rotr 25 x"

definition small_sigma0 :: "u32 \<Rightarrow> u32" where
  "small_sigma0 x = word_rotr 7 x XOR word_rotr 18 x XOR drop_bit 3 x"

definition small_sigma1 :: "u32 \<Rightarrow> u32" where
  "small_sigma1 x = word_rotr 17 x XOR word_rotr 19 x XOR drop_bit 10 x"

definition ch :: "u32 \<Rightarrow> u32 \<Rightarrow> u32 \<Rightarrow> u32" where
  "ch x y z = (x AND y) XOR (NOT x AND z)"

definition maj :: "u32 \<Rightarrow> u32 \<Rightarrow> u32 \<Rightarrow> u32" where
  "maj x y z = (x AND y) XOR (x AND z) XOR (y AND z)"

text \<open>Padding: the byte 128, zero bytes up to 56 modulo 64, the bit length on 8 bytes.\<close>

definition length_bytes :: "64 word \<Rightarrow> byte list" where
  "length_bytes n = map (\<lambda>i. ucast (drop_bit (8 * (7 - i)) n)) [0..<8]"

definition sha_pad :: "byte list \<Rightarrow> byte list" where
  "sha_pad bs =
     bs @ [128] @ replicate ((119 - length bs mod 64) mod 64) 0
        @ length_bytes (of_nat (8 * length bs))"

fun be_words :: "byte list \<Rightarrow> u32 list" where
  "be_words (a # b # c # d # bs) =
     (push_bit 24 (ucast a) OR push_bit 16 (ucast b) OR push_bit 8 (ucast c) OR ucast d)
       # be_words bs"
| "be_words _ = []"

fun schedule :: "nat \<Rightarrow> u32 list \<Rightarrow> u32 list" where
  "schedule 0 w = w"
| "schedule (Suc n) w =
     (let t = length w
      in schedule n (w @ [small_sigma1 (w ! (t - 2)) + w ! (t - 7)
                          + small_sigma0 (w ! (t - 15)) + w ! (t - 16)]))"

type_synonym sha_state = "u32 \<times> u32 \<times> u32 \<times> u32 \<times> u32 \<times> u32 \<times> u32 \<times> u32"

definition sha_round :: "u32 \<times> u32 \<Rightarrow> sha_state \<Rightarrow> sha_state" where
  "sha_round kw s =
     (case s of (a, b, c, d, e, f, g, h) \<Rightarrow>
        let t1 = h + big_sigma1 e + ch e f g + fst kw + snd kw;
            t2 = big_sigma0 a + maj a b c
        in (t1 + t2, a, b, c, d + t1, e, f, g))"

definition sha_block :: "sha_state \<Rightarrow> u32 list \<Rightarrow> sha_state" where
  "sha_block s w =
     (case (s, fold sha_round (zip sha_k (schedule 48 w)) s) of
        ((a, b, c, d, e, f, g, h), (a', b', c', d', e', f', g', h')) \<Rightarrow>
          (a + a', b + b', c + c', d + d', e + e', f + f', g + g', h + h'))"

fun sha_blocks :: "nat \<Rightarrow> sha_state \<Rightarrow> u32 list \<Rightarrow> sha_state" where
  "sha_blocks 0 s ws = s"
| "sha_blocks (Suc n) s ws = sha_blocks n (sha_block s (take 16 ws)) (drop 16 ws)"

text \<open>
  The digest starts from the first 32 bits of the fractional parts of the square roots
  of the first 8 primes and absorbs the padded message block by block.
\<close>

definition sha256 :: "byte list \<Rightarrow> u32 list" where
  "sha256 bs =
     (let ws = be_words (sha_pad bs)
      in case sha_blocks (length ws div 16)
              (1779033703, 3144134277, 1013904242, 2773480762,
               1359893119, 2600822924, 528734635, 1541459225) ws of
           (a, b, c, d, e, f, g, h) \<Rightarrow> [a, b, c, d, e, f, g, h])"

definition hex_digit :: "u32 \<Rightarrow> char" where
  "hex_digit n = ''0123456789abcdef'' ! unat (n AND 15)"

definition hex_word :: "u32 \<Rightarrow> string" where
  "hex_word w = map (\<lambda>i. hex_digit (drop_bit (4 * (7 - i)) w)) [0..<8]"

definition hexdigest :: "u32 list \<Rightarrow> string" where
  "hexdigest ws = concat (map hex_word ws)"

definition compute_sha256 :: "string \<Rightarrow> string" where
  "compute_sha256 text = hexdigest (sha256 (encode text))"

subsection \<open>The analyser\<close>

text \<open>\<^verbatim>\<open>text.replace(" ", "")\<close> removes the character 32 and nothing else.\<close>

definition remove_spaces :: "string \<Rightarrow> string" where
  "remove_spaces text = filter (\<lambda>c. c \<noteq> CHR '' '') text"

definition is_palindrome :: "string \<Rightarrow> bool" where
  "is_palindrome text = (let cleaned = remove_spaces (lower text) in cleaned = rev cleaned)"

definition count_unique_characters :: "string \<Rightarrow> int" where
  "count_unique_characters text = int (card (set text))"

text \<open>
  \<^verbatim>\<open>text.split()\<close>: the maximal runs of characters that are not whitespace, in
  order. \<open>cur\<close> is the run being read.
\<close>

fun split_from :: "string \<Rightarrow> string \<Rightarrow> string list" where
  "split_from cur [] = (if cur = [] then [] else [cur])"
| "split_from cur (c # cs) =
     (if is_space c then (if cur = [] then split_from [] cs else cur # split_from [] cs)
      else split_from (cur @ [c]) cs)"

definition split :: "string \<Rightarrow> string list" where
  "split text = split_from [] text"

definition count_words :: "string \<Rightarrow> int" where
  "count_words text = int (length (split text))"

text \<open>
  \<^verbatim>\<open>Counter(text)\<close> reads the characters from left to right and does
  \<^verbatim>\<open>mapping[elem] = mapping.get(elem, 0) + 1\<close>; a dictionary keeps its keys in the
  order of their first insertion, which is what \<^const>\<open>AList.update\<close> does on an
  association list.
\<close>

definition count_elem :: "char \<Rightarrow> (char \<times> int) list \<Rightarrow> (char \<times> int) list" where
  "count_elem c m = AList.update c ((case map_of m c of None \<Rightarrow> 0 | Some n \<Rightarrow> n) + 1) m"

definition get_character_frequency :: "string \<Rightarrow> (char \<times> int) list" where
  "get_character_frequency text = fold count_elem text []"

record string_properties =
  length_p :: int
  is_palindrome_p :: bool
  unique_characters :: int
  word_count_p :: int
  sha256_hash :: string
  character_frequency_map :: "(char \<times> int) list"

record string_response =
  id_r :: string
  value_r :: string
  properties :: string_properties
  created_at :: string

text \<open>\<open>now\<close> is what \<^verbatim>\<open>datetime.utcnow().isoformat()\<close> returns at the call.\<close>

definition analyze_string :: "string \<Rightarrow> string \<Rightarrow> string_response" where
  "analyze_string now v =
     (let sha = compute_sha256 v;
          props = \<lparr> length_p = int (length v),
                    is_palindrome_p = is_palindrome v,
                    unique_characters = count_unique_characters v,
                    word_count_p = count_words v,
                    sha256_hash = sha,
                    character_frequency_map = get_character_frequency v \<rparr>
      in \<lparr> id_r = sha, value_r = v, properties = props, created_at = now @ ''Z'' \<rparr>)"

subsection \<open>Exceptions\<close>

text \<open>
  What the code raises: FastAPI's \<^verbatim>\<open>HTTPException\<close>, raised by the endpoints with
  a status code and a detail, and \<^verbatim>\<open>ValueError\<close>, raised by \<^verbatim>\<open>int\<close> and caught
  nowhere. The four kinds of error of the specification are the four
  \<^verbatim>\<open>HTTPException\<close>s of the endpoints.
\<close>

datatype py_exception = HTTPException (status_code: nat) (detail: string) | ValueError

abbreviation Conflict :: py_exception where
  "Conflict \<equiv> HTTPException 409 ''String already exists in the system''"

abbreviation NotFound :: py_exception where
  "NotFound \<equiv> HTTPException 404 ''String does not exist in the system''"

abbreviation Unparseable :: py_exception where
  "Unparseable \<equiv> HTTPException 400 ''Unable to parse natural language query''"

abbreviation InvalidRange :: py_exception where
  "InvalidRange \<equiv> HTTPException 400 ''min_length cannot be greater than max_length''"

subsection \<open>The phrase parser\<close>

record filters =
  is_palindrome_f :: "bool option"
  min_length_f :: "int option"
  max_length_f :: "int option"
  word_count_f :: "int option"
  contains_character_f :: "string option"

text \<open>The empty dictionary \<^verbatim>\<open>{}\<close>: no key is present.\<close>

definition no_filters :: filters where
  "no_filters = \<lparr> is_palindrome_f = None, min_length_f = None, max_length_f = None,
                  word_count_f = None, contains_character_f = None \<rparr>"

definition starts_with :: "string \<Rightarrow> string \<Rightarrow> bool" where
  "starts_with pat s = (take (length pat) s = pat)"

text \<open>\<^verbatim>\<open>pat in s\<close> on two strings: \<open>pat\<close> occurs in \<open>s\<close> at some position.\<close>

fun contains_str :: "string \<Rightarrow> string \<Rightarrow> bool" where
  "contains_str pat [] = (pat = [])"
| "contains_str pat (c # cs) = (starts_with pat (c # cs) \<or> contains_str pat cs)"

text \<open>
  \<^verbatim>\<open>re.search(pat + r'(\d+)', s)\<close> for a literal \<open>pat\<close>: the leftmost position
  where \<open>pat\<close> is followed by a digit; group 1 is the longest run of digits there.
\<close>

fun search_number :: "string \<Rightarrow> string \<Rightarrow> string option" where
  "search_number pat [] = None"
| "search_number pat (c # cs) =
     (if starts_with pat (c # cs) \<and> takeWhile is_digit (drop (length pat) (c # cs)) \<noteq> []
      then Some (takeWhile is_digit (drop (length pat) (c # cs)))
      else search_number pat cs)"

text \<open>
  \<^verbatim>\<open>int(digits)\<close> on a run of the digits 0 to 9. The interpreter refuses to convert
  a text of more than \<^verbatim>\<open>sys.int_info.default_max_str_digits\<close> = 4300 digits, leading
  zeros counted, and raises \<^verbatim>\<open>ValueError\<close>; otherwise the result is the number the
  digits denote in base 10.
\<close>

definition max_str_digits :: nat where
  "max_str_digits = 4300"

definition digits_value :: "string \<Rightarrow> int" where
  "digits_value ds = foldl (\<lambda>a d. 10 * a + (int (code d) - 48)) 0 ds"

definition py_int :: "string \<Rightarrow> py_exception + int" where
  "py_int ds = (if length ds > max_str_digits then Inl ValueError else Inr (digits_value ds))"

text \<open>
  \<^verbatim>\<open>re.search(r'contain(?:ing|s)? (?:the )?letter ([a-z])', s)\<close>, read from the end of
  the pattern backwards: each optional group is tried first with its text, then without.
\<close>

definition letter_at :: "string \<Rightarrow> char option" where
  "letter_at s =
     (if starts_with ''letter '' s
      then (case drop 7 s of [] \<Rightarrow> None | c # _ \<Rightarrow> if is_az c then Some c else None)
      else None)"

definition the_letter_at :: "string \<Rightarrow> char option" where
  "the_letter_at s =
     (if starts_with '' '' s
      then (case (if starts_with ''the '' (drop 1 s) then letter_at (drop 5 s) else None) of
              Some c \<Rightarrow> Some c
            | None \<Rightarrow> letter_at (drop 1 s))
      else None)"

definition contain_at :: "string \<Rightarrow> char option" where
  "contain_at s =
     (if starts_with ''contain'' s
      then (case (if starts_with ''ing'' (drop 7 s) then the_letter_at (drop 10 s) else None) of
              Some c \<Rightarrow> Some c
            | None \<Rightarrow>
               (case (if starts_with ''s'' (drop 7 s) then the_letter_at (drop 8 s) else None) of
                  Some c \<Rightarrow> Some c
                | None \<Rightarrow> the_letter_at (drop 7 s)))
      else None)"

fun search_letter :: "string \<Rightarrow> char option" where
  "search_letter [] = None"
| "search_letter (c # cs) =
     (case contain_at (c # cs) of Some x \<Rightarrow> Some x | None \<Rightarrow> search_letter cs)"

text \<open>
  The patterns are tried in the order of the source. A \<^verbatim>\<open>ValueError\<close> of
  \<^verbatim>\<open>int\<close> leaves the function at once, so no filter set is returned.
\<close>

definition parse_natural_language_query :: "string \<Rightarrow> py_exception + filters" where
  "parse_natural_language_query query =
     (let query_lower = lower query;
          f0 = no_filters;
          f1 = (if contains_str ''palindrom'' query_lower
                then f0\<lparr>is_palindrome_f := Some True\<rparr> else f0);
          f2 = (if contains_str ''single word'' query_lower \<or> contains_str ''one word'' query_lower
                then f1\<lparr>word_count_f := Some 1\<rparr>
                else if contains_str ''two word'' query_lower
                then f1\<lparr>word_count_f := Some 2\<rparr>
                else if contains_str ''three word'' query_lower
                then f1\<lparr>word_count_f := Some 3\<rparr>
                else f1)
      in case (case search_number ''longer than '' query_lower of
                 Some g \<Rightarrow> (case py_int g of
                             Inl e \<Rightarrow> Inl e
                           | Inr n \<Rightarrow> Inr (f2\<lparr>min_length_f := Some (n + 1)\<rparr>))
               | None \<Rightarrow> Inr f2) of
           Inl e \<Rightarrow> Inl e
         | Inr f3 \<Rightarrow>
            (case (case search_number ''shorter than '' query_lower of
                     Some g \<Rightarrow> (case py_int g of
                                 Inl e \<Rightarrow> Inl e
                               | Inr n \<Rightarrow> Inr (f3\<lparr>max_length_f := Some (n - 1)\<rparr>))
                   | None \<Rightarrow> Inr f3) of
               Inl e \<Rightarrow> Inl e
             | Inr f4 \<Rightarrow>
                (case (case search_number ''at least '' query_lower of
                         Some g \<Rightarrow> (case py_int g of
                                     Inl e \<Rightarrow> Inl e
                                   | Inr n \<Rightarrow> Inr (f4\<lparr>min_length_f := Some n\<rparr>))
                       | None \<Rightarrow> Inr f4) of
                   Inl e \<Rightarrow> Inl e
                 | Inr f5 \<Rightarrow>
                    (let f6 = (case search_letter query_lower of
                                 Some c \<Rightarrow> f5\<lparr>contains_character_f := Some [c]\<rparr>
                               | None \<Rightarrow> f5);
                         f7 = (if contains_str ''first vowel'' query_lower
                               then f6\<lparr>contains_character_f := Some ''a''\<rparr> else f6)
                     in Inr f7))))"

subsection \<open>The filter engine\<close>

definition apply_filters :: "string_response list \<Rightarrow> filters \<Rightarrow> string_response list" where
  "apply_filters strings_list fs =
     (let filtered = strings_list;
          filtered = (case is_palindrome_f fs of
                        Some b \<Rightarrow> [s \<leftarrow> filtered. is_palindrome_p (properties s) = b]
                      | None \<Rightarrow> filtered);
          filtered = (case min_length_f fs of
                        Some n \<Rightarrow> [s \<leftarrow> filtered. length_p (properties s) \<ge> n]
                      | None \<Rightarrow> filtered);
          filtered = (case max_length_f fs of
                        Some n \<Rightarrow> [s \<leftarrow> filtered. length_p (properties s) \<le> n]
                      | None \<Rightarrow> filtered);
          filtered = (case word_count_f fs of
                        Some n \<Rightarrow> [s \<leftarrow> filtered. word_count_p (properties s) = n]
                      | None \<Rightarrow> filtered);
          filtered = (case contains_character_f fs of
                        Some char \<Rightarrow> [s \<leftarrow> filtered. contains_str char (lower (value_r s))]
                      | None \<Rightarrow> filtered)
      in filtered)"

subsection \<open>The store and the endpoints\<close>

text \<open>
  \<^verbatim>\<open>strings_db\<close> maps a digest to the analysed record; as a Python dictionary it
  lists its entries in insertion order. \<^verbatim>\<open>db[k] = r\<close> is \<^const>\<open>AList.update\<close>,
  \<^verbatim>\<open>del db[k]\<close> is \<^const>\<open>AList.delete\<close>, \<^verbatim>\<open>db[k]\<close> is \<^const>\<open>map_of\<close>.
  An endpoint that writes returns its result together with the new dictionary; one that
  raises returns the dictionary it was given. \<^verbatim>\<open>delete_string\<close> answers with the
  status code of its empty \<^verbatim>\<open>Response\<close>. The bounds that FastAPI checks on the
  query parameters before it calls an endpoint (\<^verbatim>\<open>ge=0\<close>, \<^verbatim>\<open>min_length=1\<close>,
  \<^verbatim>\<open>max_length=1\<close>) are not part of the function bodies modelled here.
\<close>

type_synonym strings_db = "(string \<times> string_response) list"

definition has_key :: "strings_db \<Rightarrow> string \<Rightarrow> bool" where
  "has_key db k = (k \<in> set (map fst db))"

definition create_string ::
  "string \<Rightarrow> string \<Rightarrow> strings_db \<Rightarrow> (py_exception + string_response) \<times> strings_db" where
  "create_string now v db =
     (let sha = compute_sha256 v
      in if has_key db sha then (Inl Conflict, db)
         else (let result = analyze_string now v
               in (Inr result, AList.update sha result db)))"

record interpreted_query =
  original :: string
  parsed_filters :: filters

record natural_language_response =
  data :: "string_response list"
  count :: int
  interpreted :: interpreted_query

record string_list_response =
  data_l :: "string_response list"
  count_l :: int
  filters_applied :: filters

definition filter_by_natural_language ::
  "string \<Rightarrow> strings_db \<Rightarrow> py_exception + natural_language_response" where
  "filter_by_natural_language query db =
     (case parse_natural_language_query query of
        Inl e \<Rightarrow> Inl e
      | Inr fs \<Rightarrow>
         if fs = no_filters then Inl Unparseable
         else (let all_strings = map snd db;
                   filtered_strings = apply_filters all_strings fs
               in Inr \<lparr> data = filtered_strings,
                        count = int (length filtered_strings),
                        interpreted = \<lparr> original = query, parsed_filters = fs \<rparr> \<rparr>))"

definition get_all_strings ::
  "bool option \<Rightarrow> int option \<Rightarrow> int option \<Rightarrow> int option \<Rightarrow> string option \<Rightarrow> strings_db
     \<Rightarrow> py_exception + string_list_response" where
  "get_all_strings is_pal min_len max_len wc contains db =
     (if min_len \<noteq> None \<and> max_len \<noteq> None \<and> the min_len > the max_len then Inl InvalidRange
      else (let fs = \<lparr> is_palindrome_f = is_pal, min_length_f = min_len, max_length_f = max_len,
                        word_count_f = wc, contains_character_f = map_option lower contains \<rparr>;
                all_strings = map snd db;
                filtered_strings = apply_filters all_strings fs
            in Inr \<lparr> data_l = filtered_strings,
                     count_l = int (length filtered_strings),
                     filters_applied = fs \<rparr>))"

definition get_string :: "string \<Rightarrow> strings_db \<Rightarrow> py_exception + string_response" where
  "get_string string_value db =
     (let sha = compute_sha256 string_value
      in if \<not> has_key db sha then Inl NotFound
         else (case map_of db sha of Some r \<Rightarrow> Inr r))"

definition delete_string :: "string \<Rightarrow> strings_db \<Rightarrow> (py_exception + nat) \<times> strings_db" where
  "delete_string string_value db =
     (let sha = compute_sha256 string_value
      in if \<not> has_key db sha then (Inl NotFound, db)
         else (Inr 204, AList.delete sha db))"

subsection \<open>Stores the service can reach, and the properties stated about them\<close>

text \<open>
  The service starts with the empty dictionary, and only \<^const>\<open>create_string\<close> and
  \<^const>\<open>delete_string\<close> write to it.
\<close>

inductive reachable :: "strings_db \<Rightarrow> bool" where
  start: "reachable []"
| create: "reachable db \<Longrightarrow> reachable (snd (create_string now v db))"
| delete: "reachable db \<Longrightarrow> reachable (snd (delete_string v db))"

text \<open>Every entry is filed under the \<^verbatim>\<open>id\<close> of its record.\<close>

definition keyed_by_id :: "strings_db \<Rightarrow> bool" where
  "keyed_by_id db = (\<forall>p \<in> set db. id_r (snd p) = fst p)"

text \<open>
  The frequency map accounts for every character of the text: its counts add up to
  the length, and it has as many keys as there are distinct characters.
\<close>

definition frequency_consistent :: "string_properties \<Rightarrow> bool" where
  "frequency_consistent p =
     (sum_list (map snd (character_frequency_map p)) = length_p p \<and>
      int (card (set (map fst (character_frequency_map p)))) = unique_characters p \<and>
      distinct (map fst (character_frequency_map p)))"

text \<open>
  The palindrome test in the specification's words: fold the case of the text, then
  remove its space characters (character 32 and no other).
\<close>

definition folded_without_spaces :: "string \<Rightarrow> string" where
  "folded_without_spaces s = filter (\<lambda>c. c \<noteq> CHR '' '') (lower s)"

text \<open>
  The predicate a record has to satisfy in \<^const>\<open>apply_filters\<close>, read off the five
  comprehensions; and the one of the specification's table, where the last row folds
  the case of the given character as well as that of the value.
\<close>

definition passes :: "filters \<Rightarrow> string_response \<Rightarrow> bool" where
  "passes fs r =
     ((case is_palindrome_f fs of None \<Rightarrow> True | Some b \<Rightarrow> is_palindrome_p (properties r) = b) \<and>
      (case min_length_f fs of None \<Rightarrow> True | Some n \<Rightarrow> length_p (properties r) \<ge> n) \<and>
      (case max_length_f fs of None \<Rightarrow> True | Some n \<Rightarrow> length_p (properties r) \<le> n) \<and>
      (case word_count_f fs of None \<Rightarrow> True | Some n \<Rightarrow> word_count_p (properties r) = n) \<and>
      (case contains_character_f fs of None \<Rightarrow> True
       | Some x \<Rightarrow> contains_str x (lower (value_r r))))"

definition spec_passes :: "filters \<Rightarrow> string_response \<Rightarrow> bool" where
  "spec_passes fs r =
     ((case is_palindrome_f fs of None \<Rightarrow> True | Some b \<Rightarrow> is_palindrome_p (properties r) = b) \<and>
      (case min_length_f fs of None \<Rightarrow> True | Some n \<Rightarrow> length_p (properties r) \<ge> n) \<and>
      (case max_length_f fs of None \<Rightarrow> True | Some n \<Rightarrow> length_p (properties r) \<le> n) \<and>
      (case word_count_f fs of None \<Rightarrow> True | Some n \<Rightarrow> word_count_p (properties r) = n) \<and>
      (case contains_character_f fs of None \<Rightarrow> True
       | Some x \<Rightarrow> contains_str (lower x) (lower (value_r r))))"

text \<open>A filter value that \<^verbatim>\<open>str.lower\<close> leaves as it is.\<close>

definition lower_case_filter :: "filters \<Rightarrow> bool" where
  "lower_case_filter fs =
     (case contains_character_f fs of None \<Rightarrow> True | Some x \<Rightarrow> lower x = x)"

text \<open>Some pattern of \<^const>\<open>parse_natural_language_query\<close> matches the phrase.\<close>

definition recognized :: "string \<Rightarrow> bool" where
  "recognized query =
     (let query_lower = lower query
      in contains_str ''palindrom'' query_lower
         \<or> contains_str ''single word'' query_lower \<or> contains_str ''one word'' query_lower
         \<or> contains_str ''two word'' query_lower \<or> contains_str ''three word'' query_lower
         \<or> search_number ''longer than '' query_lower \<noteq> None
         \<or> search_number ''shorter than '' query_lower \<noteq> None
         \<or> search_number ''at least '' query_lower \<noteq> None
         \<or> search_letter query_lower \<noteq> None
         \<or> contains_str ''first vowel'' query_lower)"

text \<open>
  \<^verbatim>\<open>int\<close> accepts every run of digits that a length pattern matches in the phrase.
\<close>

definition digits_accepted :: "string \<Rightarrow> bool" where
  "digits_accepted query =
     (let query_lower = lower query
      in (case search_number ''longer than '' query_lower of
            None \<Rightarrow> True | Some g \<Rightarrow> length g \<le> max_str_digits)
         \<and> (case search_number ''shorter than '' query_lower of
               None \<Rightarrow> True | Some g \<Rightarrow> length g \<le> max_str_digits)
         \<and> (case search_number ''at least '' query_lower of
               None \<Rightarrow> True | Some g \<Rightarrow> length g \<le> max_str_digits))"

section \<open>Properties\<close>

subsection \<open>The digest agrees with the published test vectors\<close>

lemma sha256_empty:
  "compute_sha256 [] = ''e3b0c44298fc1c149afbf4c8996fb92427ae41e4649b934ca495991b7852b855''"
  by code_simp

lemma sha256_abc:
  "compute_sha256 ''abc'' = ''ba7816bf8f01cfea414140de5dae2223b00361a396177a9cb410ff61f20015ad''"
  by code_simp

lemma sha256_hello_world:
  "compute_sha256 ''hello world'' =
     ''b94d27b9934d3e08a52e52d7da7dabfac484efe37a5380ee9088f7ace2efcde9''"
  by code_simp

subsection \<open>The frequency map\<close>

lemma sum_list_update:
  "sum_list (map snd (AList.update k v m)) =
     sum_list (map snd m) - (case map_of m k of None \<Rightarrow> 0 | Some n \<Rightarrow> n) + (v::int)"
  by (induction m) auto

lemma sum_list_count_elem: "sum_list (map snd (count_elem c m)) = sum_list (map snd m) + 1"
  by (simp add: count_elem_def sum_list_update split: option.splits)

lemma keys_count_elem: "set (map fst (count_elem c m)) = insert c (set (map fst m))"
  by (simp add: count_elem_def dom_update)

lemma distinct_count_elem: "distinct (map fst m) \<Longrightarrow> distinct (map fst (count_elem c m))"
  by (simp add: count_elem_def distinct_update)

lemma fold_count_elem:
  "distinct (map fst m) \<Longrightarrow>
   distinct (map fst (fold count_elem xs m)) \<and>
   sum_list (map snd (fold count_elem xs m)) = sum_list (map snd m) + int (length xs) \<and>
   set (map fst (fold count_elem xs m)) = set (map fst m) \<union> set xs"
proof (induction xs arbitrary: m)
  case Nil
  then show ?case by simp
next
  case (Cons x xs)
  from Cons.IH [OF distinct_count_elem [OF Cons.prems], of x]
  show ?case by (simp add: sum_list_count_elem keys_count_elem del: set_map)
qed

lemma analyze_string_fields:
  "id_r (analyze_string now v) = compute_sha256 v"
  "value_r (analyze_string now v) = v"
  "created_at (analyze_string now v) = now @ ''Z''"
  "length_p (properties (analyze_string now v)) = int (length v)"
  "is_palindrome_p (properties (analyze_string now v)) = is_palindrome v"
  "unique_characters (properties (analyze_string now v)) = count_unique_characters v"
  "word_count_p (properties (analyze_string now v)) = count_words v"
  "sha256_hash (properties (analyze_string now v)) = compute_sha256 v"
  "character_frequency_map (properties (analyze_string now v)) = get_character_frequency v"
  by (simp_all add: analyze_string_def Let_def)

lemma analyze_string_frequency: "frequency_consistent (properties (analyze_string now v))"
  using fold_count_elem [of "[]" v]
  by (simp add: frequency_consistent_def analyze_string_fields get_character_frequency_def
        count_unique_characters_def del: set_map)

subsection \<open>What a reachable store holds\<close>

lemma set_update_subset: "set (AList.update k v al) \<subseteq> insert (k, v) (set al)"
  by (induction al) auto

lemma set_delete_subset: "set (AList.delete k al) \<subseteq> set al"
  by (auto simp: AList.delete_eq)

lemma reachable_analyzed:
  "reachable db \<Longrightarrow> p \<in> set db \<Longrightarrow>
     \<exists>now v. p = (compute_sha256 v, analyze_string now v)"
proof (induction arbitrary: p rule: reachable.induct)
  case start
  then show ?case by simp
next
  case (create db now v)
  show ?case
  proof (cases "has_key db (compute_sha256 v)")
    case True
    with create show ?thesis by (simp add: create_string_def)
  next
    case False
    with create.prems have "p \<in> insert (compute_sha256 v, analyze_string now v) (set db)"
      using set_update_subset [of "compute_sha256 v" "analyze_string now v" db]
      by (auto simp: create_string_def Let_def)
    with create.IH [of p] show ?thesis by blast
  qed
next
  case (delete db v)
  from delete.prems have "p \<in> set db"
    using set_delete_subset [of "compute_sha256 v" db]
    by (auto simp: delete_string_def Let_def split: if_splits)
  with delete.IH show ?case by simp
qed

lemma reachable_keyed_by_id: "reachable db \<Longrightarrow> keyed_by_id db"
  unfolding keyed_by_id_def
proof
  fix p assume "reachable db" "p \<in> set db"
  then obtain now v where "p = (compute_sha256 v, analyze_string now v)"
    using reachable_analyzed by blast
  then show "id_r (snd p) = fst p" by (simp add: analyze_string_fields)
qed

subsection \<open>The endpoints, unfolded\<close>

lemma has_key_map_of: "has_key db k = (map_of db k \<noteq> None)"
  by (simp add: has_key_def map_of_eq_None_iff)

lemma create_string_eq:
  "create_string now v db =
     (if has_key db (compute_sha256 v) then (Inl Conflict, db)
      else (Inr (analyze_string now v),
            AList.update (compute_sha256 v) (analyze_string now v) db))"
  by (simp add: create_string_def Let_def)

lemma delete_string_eq:
  "delete_string v db =
     (if has_key db (compute_sha256 v) then (Inr 204, AList.delete (compute_sha256 v) db)
      else (Inl NotFound, db))"
  by (simp add: delete_string_def Let_def)

lemma get_string_eq:
  "get_string v db =
     (case map_of db (compute_sha256 v) of None \<Rightarrow> Inl NotFound | Some r \<Rightarrow> Inr r)"
  by (cases "map_of db (compute_sha256 v)")
     (simp_all add: get_string_def Let_def has_key_map_of)

subsection \<open>Lower case\<close>

lemma is_az_lower_char: "is_az c \<Longrightarrow> lower_char c = c"
  by (auto simp: is_az_def lower_char_def)

lemma lower_single_az: "is_az c \<Longrightarrow> lower [c] = [c]"
  by (simp add: lower_def is_az_lower_char)

lemma lower_a: "lower ''a'' = ''a''"
  by code_simp

subsection \<open>The phrase parser, key by key\<close>

lemma letter_at_is_az: "letter_at s = Some c \<Longrightarrow> is_az c"
  by (auto simp: letter_at_def split: if_splits list.splits)

lemma the_letter_at_is_az: "the_letter_at s = Some c \<Longrightarrow> is_az c"
  by (auto simp: the_letter_at_def split: if_splits option.splits dest: letter_at_is_az)

lemma contain_at_is_az: "contain_at s = Some c \<Longrightarrow> is_az c"
  by (auto simp: contain_at_def split: if_splits option.splits dest: the_letter_at_is_az)

lemma search_letter_is_az: "search_letter s = Some c \<Longrightarrow> is_az c"
  by (induction s) (auto split: option.splits dest: contain_at_is_az)

lemma py_int_eq:
  "py_int g = (if length g \<le> max_str_digits then Inr (digits_value g) else Inl ValueError)"
  by (simp add: py_int_def)

lemma parse_raises:
  "\<not> digits_accepted query \<Longrightarrow> parse_natural_language_query query = Inl ValueError"
  by (auto simp: parse_natural_language_query_def digits_accepted_def Let_def py_int_eq
           split: option.splits)

lemma parse_accepted:
  "digits_accepted query \<Longrightarrow>
   parse_natural_language_query query =
     Inr \<lparr> is_palindrome_f =
             (if contains_str ''palindrom'' (lower query) then Some True else None),
           min_length_f =
             (case search_number ''at least '' (lower query) of
                Some g \<Rightarrow> Some (digits_value g)
              | None \<Rightarrow> map_option (\<lambda>g. digits_value g + 1)
                         (search_number ''longer than '' (lower query))),
           max_length_f =
             map_option (\<lambda>g. digits_value g - 1) (search_number ''shorter than '' (lower query)),
           word_count_f =
             (if contains_str ''single word'' (lower query) \<or> contains_str ''one word'' (lower query)
              then Some 1
              else if contains_str ''two word'' (lower query) then Some 2
              else if contains_str ''three word'' (lower query) then Some 3 else None),
           contains_character_f =
             (if contains_str ''first vowel'' (lower query) then Some ''a''
              else map_option (\<lambda>c. [c]) (search_letter (lower query))) \<rparr>"
  by (simp add: parse_natural_language_query_def digits_accepted_def Let_def py_int_eq no_filters_def
           split: option.splits)

lemma parse_returns_accepted:
  "parse_natural_language_query query = Inr fs \<Longrightarrow> digits_accepted query"
  using parse_raises [of query] by auto

lemma parse_raises_only_ValueError:
  "parse_natural_language_query query = Inl e \<Longrightarrow> e = ValueError \<and> \<not> digits_accepted query"
  using parse_raises [of query] parse_accepted [of query] by (cases "digits_accepted query") auto

lemma not_accepted_recognized: "\<not> digits_accepted query \<Longrightarrow> recognized query"
  by (auto simp: digits_accepted_def recognized_def Let_def split: option.splits)

lemma not_recognized_accepted: "\<not> recognized query \<Longrightarrow> digits_accepted query"
  using not_accepted_recognized by blast

lemma no_filters_iff:
  "(fs = no_filters) =
     (is_palindrome_f fs = None \<and> min_length_f fs = None \<and> max_length_f fs = None
      \<and> word_count_f fs = None \<and> contains_character_f fs = None)"
  by (cases fs) (auto simp: no_filters_def)

lemma parse_empty_iff:
  "(parse_natural_language_query query = Inr no_filters) = (\<not> recognized query)"
proof
  assume e: "parse_natural_language_query query = Inr no_filters"
  from parse_accepted [OF parse_returns_accepted [OF e]] e
  show "\<not> recognized query"
    by (auto simp: no_filters_def recognized_def Let_def split: option.splits if_splits)
next
  assume n: "\<not> recognized query"
  from parse_accepted [OF not_recognized_accepted [OF n]] n
  show "parse_natural_language_query query = Inr no_filters"
    by (auto simp: no_filters_def recognized_def Let_def split: option.splits if_splits)
qed

lemma parse_lower_case:
  assumes "parse_natural_language_query query = Inr fs"
  shows "lower_case_filter fs"
proof -
  from parse_accepted [OF parse_returns_accepted [OF assms]] assms
  have "contains_character_f fs =
          (if contains_str ''first vowel'' (lower query) then Some ''a''
           else map_option (\<lambda>c. [c]) (search_letter (lower query)))"
    by auto
  then show ?thesis
    by (cases "search_letter (lower query)")
       (auto simp: lower_case_filter_def lower_a lower_single_az
             dest: search_letter_is_az split: if_splits)
qed

subsection \<open>The filter engine as one filter\<close>

lemma apply_filters_passes: "apply_filters rs fs = filter (passes fs) rs"
  by (auto simp: apply_filters_def passes_def Let_def split: option.splits intro: filter_cong)

lemma passes_spec_passes: "lower_case_filter fs \<Longrightarrow> passes fs r = spec_passes fs r"
  by (auto simp: lower_case_filter_def passes_def spec_passes_def split: option.splits)

section \<open>The claims\<close>

subsection \<open>The analyser\<close>

lemma is_palindrome_examples:
  "is_palindrome ''racecar''" "\<not> is_palindrome ''hello world''"
  "is_palindrome ''noon''" "is_palindrome ''Noon''"
  "is_palindrome ''ab a''" "\<not> is_palindrome [CHR ''a'', CHR ''b'', CHR 0x09, CHR ''a'']"
  "\<not> is_palindrome ''ab,a''"
  by code_simp+

text \<open>
  C5. For every text, the analyser's \<^verbatim>\<open>is_palindrome\<close> is true exactly when the
  text obtained by folding its case and then removing its space characters reads the
  same backwards. The statement uses \<^const>\<open>lower\<close> as a function from texts to texts
  and nothing else about it. Only the space character is removed: a tab or a comma
  stays and counts. The four texts of the specification come out as it says:
  "racecar", "noon" and "Noon" are palindromes, "hello world" is none.
\<close>

theorem is_palindrome_fold_case_strip_spaces:
  "is_palindrome_p (properties (analyze_string now s))
     = (folded_without_spaces s = rev (folded_without_spaces s))
   \<and> is_palindrome_p (properties (analyze_string now ''racecar''))
   \<and> \<not> is_palindrome_p (properties (analyze_string now ''hello world''))
   \<and> is_palindrome_p (properties (analyze_string now ''noon''))
   \<and> is_palindrome_p (properties (analyze_string now ''Noon''))
   \<and> is_palindrome_p (properties (analyze_string now ''ab a''))
   \<and> \<not> is_palindrome_p (properties (analyze_string now [CHR ''a'', CHR ''b'', CHR 0x09, CHR ''a'']))
   \<and> \<not> is_palindrome_p (properties (analyze_string now ''ab,a''))"
proof -
  have "is_palindrome s = (folded_without_spaces s = rev (folded_without_spaces s))"
    by (simp add: is_palindrome_def Let_def remove_spaces_def folded_without_spaces_def)
  then show ?thesis
    by (simp only: analyze_string_fields is_palindrome_examples simp_thms)
qed

theorem is_palindrome_fold_case_strip_spaces_witness:
  "is_palindrome_p (properties (analyze_string ''2025-10-20T10:00:00'' ''Never odd or even''))
   \<and> folded_without_spaces ''Never odd or even'' = ''neveroddoreven''"
proof -
  have f: "folded_without_spaces ''Never odd or even'' = ''neveroddoreven''"
    by code_simp
  from is_palindrome_fold_case_strip_spaces [of "''2025-10-20T10:00:00''" "''Never odd or even''"]
  have "is_palindrome_p (properties (analyze_string ''2025-10-20T10:00:00'' ''Never odd or even''))
     = (folded_without_spaces ''Never odd or even'' = rev (folded_without_spaces ''Never odd or even''))"
    by (rule conjunct1)
  with f show ?thesis by simp
qed

text \<open>
  C8. The analyser accepts the empty text: its record has length 0, is a palindrome,
  has no unique character, no word, and an empty frequency map.
\<close>

theorem analyze_string_empty:
  "value_r (analyze_string now []) = []
   \<and> length_p (properties (analyze_string now [])) = 0
   \<and> is_palindrome_p (properties (analyze_string now [])) = True
   \<and> unique_characters (properties (analyze_string now [])) = 0
   \<and> word_count_p (properties (analyze_string now [])) = 0
   \<and> character_frequency_map (properties (analyze_string now [])) = []"
  by (simp add: analyze_string_fields is_palindrome_def remove_spaces_def lower_def
        count_unique_characters_def count_words_def split_def get_character_frequency_def)

theorem analyze_string_empty_witness:
  "length_p (properties (analyze_string ''2025-10-20T10:00:00'' [])) = 0
   \<and> is_palindrome_p (properties (analyze_string ''2025-10-20T10:00:00'' []))
   \<and> character_frequency_map (properties (analyze_string ''2025-10-20T10:00:00'' [])) = []"
  using analyze_string_empty [of "''2025-10-20T10:00:00''"] by simp

text \<open>
  C10. In every record the analyser produces, the counts of the frequency map add up
  to the length and the map has as many keys as the text has distinct characters; the
  same holds of every record in a store the service can reach, since each of them was
  produced by the analyser.
\<close>

theorem frequency_map_matches_length_and_unique:
  "frequency_consistent (properties (analyze_string now v))
   \<and> (reachable db \<longrightarrow> (\<forall>r \<in> set (map snd db). frequency_consistent (properties r)))"
proof (intro conjI impI ballI)
  show "frequency_consistent (properties (analyze_string now v))"
    by (rule analyze_string_frequency)
next
  fix r assume "reachable db" "r \<in> set (map snd db)"
  then obtain k where "reachable db" "(k, r) \<in> set db" by auto
  then obtain t w where "(k, r) = (compute_sha256 w, analyze_string t w)"
    using reachable_analyzed by blast
  then show "frequency_consistent (properties r)"
    by (simp add: analyze_string_frequency)
qed

theorem frequency_map_matches_length_and_unique_witness:
  "reachable (snd (create_string ''2025-10-20T10:00:00'' ''aabbcc'' []))
   \<and> snd (create_string ''2025-10-20T10:00:00'' ''aabbcc'' [])
        = [(compute_sha256 ''aabbcc'', analyze_string ''2025-10-20T10:00:00'' ''aabbcc'')]
   \<and> character_frequency_map (properties (analyze_string ''2025-10-20T10:00:00'' ''aabbcc''))
        = [(CHR ''a'', 2), (CHR ''b'', 2), (CHR ''c'', 2)]
   \<and> length_p (properties (analyze_string ''2025-10-20T10:00:00'' ''aabbcc'')) = 6
   \<and> unique_characters (properties (analyze_string ''2025-10-20T10:00:00'' ''aabbcc'')) = 3
   \<and> frequency_consistent (properties (analyze_string ''2025-10-20T10:00:00'' ''aabbcc''))"
proof -
  let ?t = "''2025-10-20T10:00:00''" and ?v = "''aabbcc''"
  have r: "reachable (snd (create_string ?t ?v []))"
    by (rule reachable.create [OF reachable.start])
  have s: "snd (create_string ?t ?v []) = [(compute_sha256 ?v, analyze_string ?t ?v)]"
    by (simp add: create_string_eq has_key_def)
  have f: "get_character_frequency ?v = [(CHR ''a'', 2), (CHR ''b'', 2), (CHR ''c'', 2)]"
    by code_simp
  have u: "count_unique_characters ?v = 3"
    by code_simp
  from frequency_map_matches_length_and_unique [of ?t ?v "snd (create_string ?t ?v [])"] r
  have "\<forall>r \<in> set (map snd (snd (create_string ?t ?v []))). frequency_consistent (properties r)"
    by blast
  with s have "frequency_consistent (properties (analyze_string ?t ?v))" by simp
  with r s f u show ?thesis by (simp add: analyze_string_fields)
qed

text \<open>
  Two calls of the analyser on the same text at different readings of the clock give
  records that differ, in \<^verbatim>\<open>created_at\<close>.
\<close>

theorem analyze_string_clock_counterexample:
  "analyze_string ''2025-10-20T10:00:00'' ''abc'' \<noteq> analyze_string ''2025-10-20T10:00:01'' ''abc''"
proof
  assume "analyze_string ''2025-10-20T10:00:00'' ''abc'' = analyze_string ''2025-10-20T10:00:01'' ''abc''"
  then have "created_at (analyze_string ''2025-10-20T10:00:00'' ''abc'')
             = created_at (analyze_string ''2025-10-20T10:00:01'' ''abc'')"
    by (rule arg_cong)
  then show False by (simp add: analyze_string_fields)
qed

text \<open>
  C3, as amended. The identity is the digest of the text and of nothing else, so equal
  texts have equal identities; two calls of the analyser on the same text agree on the
  identity, the value and every derived property, whatever the clock reads; the two
  records are equal as a whole exactly when the clock reads the same at both calls,
  because \<^verbatim>\<open>created_at\<close> is the time of the call.
\<close>

theorem analyze_string_deterministic_up_to_clock:
  "id_r (analyze_string t1 s) = compute_sha256 s
   \<and> id_r (analyze_string t1 s) = id_r (analyze_string t2 s)
   \<and> value_r (analyze_string t1 s) = value_r (analyze_string t2 s)
   \<and> properties (analyze_string t1 s) = properties (analyze_string t2 s)
   \<and> (analyze_string t1 s = analyze_string t2 s) = (t1 = t2)"
  by (auto simp: analyze_string_def Let_def)

theorem analyze_string_deterministic_up_to_clock_witness:
  "id_r (analyze_string ''2025-10-20T10:00:00'' ''abc'')
     = ''ba7816bf8f01cfea414140de5dae2223b00361a396177a9cb410ff61f20015ad''
   \<and> properties (analyze_string ''2025-10-20T10:00:00'' ''abc'')
     = properties (analyze_string ''2025-10-20T10:00:01'' ''abc'')"
  using analyze_string_deterministic_up_to_clock
          [of "''2025-10-20T10:00:00''" "''abc''" "''2025-10-20T10:00:01''"]
  by (simp add: sha256_abc)

subsection \<open>The phrase parser\<close>

lemma parse_longer_at_least:
  "parse_natural_language_query ''Strings longer than 10 but at least 3 long'' =
     Inr \<lparr> is_palindrome_f = None, min_length_f = Some 3, max_length_f = None,
           word_count_f = None, contains_character_f = None \<rparr>"
  by code_simp

text \<open>
  C4. When the patterns "longer than N" and "at least M" both match a phrase, every
  filter set the parser returns has \<^verbatim>\<open>min_length\<close> = M: "at least" is applied after
  "longer than" and overwrites what it stored. The parser returns a filter set when
  \<^verbatim>\<open>int\<close> accepts each run of digits that a length pattern matched, that is, when
  none has more than 4300 digits; otherwise \<^verbatim>\<open>int\<close> raises \<^verbatim>\<open>ValueError\<close> and
  there is no filter set.
\<close>

theorem at_least_overwrites_longer_than:
  assumes "search_number ''longer than '' (lower query) = Some n"
      and "search_number ''at least '' (lower query) = Some m"
  shows "(digits_accepted query \<longrightarrow> (\<exists>fs. parse_natural_language_query query = Inr fs))
         \<and> (\<forall>fs. parse_natural_language_query query = Inr fs \<longrightarrow>
                min_length_f fs = Some (digits_value m))
         \<and> (\<not> digits_accepted query \<longrightarrow> parse_natural_language_query query = Inl ValueError)"
proof (intro conjI impI allI)
  assume "digits_accepted query"
  then show "\<exists>fs. parse_natural_language_query query = Inr fs"
    by (simp add: parse_accepted)
next
  fix fs assume r: "parse_natural_language_query query = Inr fs"
  from parse_accepted [OF parse_returns_accepted [OF r]] r assms(2)
  show "min_length_f fs = Some (digits_value m)" by auto
next
  assume "\<not> digits_accepted query"
  then show "parse_natural_language_query query = Inl ValueError" by (rule parse_raises)
qed

theorem at_least_overwrites_longer_than_witness:
  "search_number ''longer than '' (lower ''Strings longer than 10 but at least 3 long'') = Some ''10''
   \<and> search_number ''at least '' (lower ''Strings longer than 10 but at least 3 long'') = Some ''3''
   \<and> digits_accepted ''Strings longer than 10 but at least 3 long''
   \<and> digits_value ''3'' = 3
   \<and> parse_natural_language_query ''Strings longer than 10 but at least 3 long'' =
       Inr \<lparr> is_palindrome_f = None, min_length_f = Some (digits_value ''3''), max_length_f = None,
             word_count_f = None, contains_character_f = None \<rparr>"
proof -
  let ?q = "''Strings longer than 10 but at least 3 long''"
  have a: "search_number ''longer than '' (lower ?q) = Some ''10''" by code_simp
  have b: "search_number ''at least '' (lower ?q) = Some ''3''" by code_simp
  have c: "digits_value ''3'' = 3" by code_simp
  have d: "digits_accepted ?q" by code_simp
  from at_least_overwrites_longer_than [OF a b] parse_longer_at_least
  have "min_length_f \<lparr> is_palindrome_f = None, min_length_f = Some 3, max_length_f = None,
           word_count_f = None, contains_character_f = None \<rparr> = Some (digits_value ''3'')"
    by blast
  with a b c d parse_longer_at_least show ?thesis by simp
qed

lemma gibberish_not_recognized: "\<not> recognized ''gibberish xyz''"
  by code_simp

lemma unparseable_iff:
  "(filter_by_natural_language query db = Inl Unparseable) = (\<not> recognized query)"
proof (cases "parse_natural_language_query query")
  case (Inl e)
  then have "e = ValueError" "recognized query"
    using parse_raises_only_ValueError [OF Inl] not_accepted_recognized by auto
  with Inl show ?thesis by (simp add: filter_by_natural_language_def)
next
  case (Inr fs)
  then have "(fs = no_filters) = (\<not> recognized query)"
    using parse_empty_iff [of query] by simp
  with Inr show ?thesis by (simp add: filter_by_natural_language_def Let_def)
qed

text \<open>
  C6. The natural-language operation fails with Unparseable exactly when no pattern
  matches the phrase, and the parser returns the empty filter set exactly then: an
  empty filter set is never answered with records. The phrase "gibberish xyz" matches
  no pattern and is refused, whatever the store holds.
\<close>

theorem unparseable_iff_no_pattern:
  "(filter_by_natural_language query db = Inl Unparseable) = (\<not> recognized query)
   \<and> (parse_natural_language_query query = Inr no_filters) = (\<not> recognized query)
   \<and> filter_by_natural_language ''gibberish xyz'' db = Inl Unparseable"
  using gibberish_not_recognized
  by (simp add: unparseable_iff parse_empty_iff)

theorem unparseable_iff_no_pattern_witness:
  "\<not> recognized ''show me everything''
   \<and> filter_by_natural_language ''show me everything''
        [(compute_sha256 ''abc'', analyze_string ''2025-10-20T10:00:00'' ''abc'')] = Inl Unparseable
   \<and> parse_natural_language_query ''show me everything'' = Inr no_filters"
proof -
  have n: "\<not> recognized ''show me everything''" by code_simp
  from unparseable_iff_no_pattern [of "''show me everything''"
         "[(compute_sha256 ''abc'', analyze_string ''2025-10-20T10:00:00'' ''abc'')]"] n
  show ?thesis by simp
qed

subsection \<open>The filter engine\<close>

lemma parse_inverted:
  "parse_natural_language_query ''longer than 10 shorter than 5'' =
     Inr \<lparr> is_palindrome_f = None, min_length_f = Some 11, max_length_f = Some 4,
           word_count_f = None, contains_character_f = None \<rparr>"
  by code_simp

text \<open>
  C9. When the filter set parsed from a phrase has \<^verbatim>\<open>min_length\<close> above
  \<^verbatim>\<open>max_length\<close>, the natural-language operation does not refuse it: it answers with
  no record and count 0, since no length lies between the bounds. The structured
  operation, given the same two bounds, fails with InvalidRange.
\<close>

theorem natural_language_inverted_range_accepted:
  assumes "parse_natural_language_query query = Inr fs"
      and "min_length_f fs = Some a"
      and "max_length_f fs = Some b"
      and "a > b"
  shows "filter_by_natural_language query db =
           Inr \<lparr> data = [], count = 0,
                  interpreted = \<lparr> original = query, parsed_filters = fs \<rparr> \<rparr>
         \<and> get_all_strings is_pal (Some a) (Some b) wc contains db = Inl InvalidRange"
proof -
  from assms have ne: "fs \<noteq> no_filters"
    by (auto simp: no_filters_def)
  from assms have "\<And>r. \<not> passes fs r"
    by (auto simp: passes_def)
  then have "apply_filters (map snd db) fs = []"
    by (simp add: apply_filters_passes)
  with ne assms(1,4) show ?thesis
    by (simp add: filter_by_natural_language_def get_all_strings_def Let_def)
qed

theorem natural_language_inverted_range_accepted_witness:
  "parse_natural_language_query ''longer than 10 shorter than 5'' =
     Inr \<lparr> is_palindrome_f = None, min_length_f = Some 11, max_length_f = Some 4,
           word_count_f = None, contains_character_f = None \<rparr>
   \<and> (11::int) > 4
   \<and> filter_by_natural_language ''longer than 10 shorter than 5''
        [(compute_sha256 ''abc'', analyze_string ''2025-10-20T10:00:00'' ''abc'')]
      = Inr \<lparr> data = [], count = 0,
               interpreted = \<lparr> original = ''longer than 10 shorter than 5'',
                 parsed_filters = \<lparr> is_palindrome_f = None, min_length_f = Some 11,
                   max_length_f = Some 4, word_count_f = None, contains_character_f = None \<rparr> \<rparr> \<rparr>
   \<and> get_all_strings None (Some 11) (Some 4) None None
        [(compute_sha256 ''abc'', analyze_string ''2025-10-20T10:00:00'' ''abc'')]
      = Inl InvalidRange"
proof -
  let ?fs = "\<lparr> is_palindrome_f = None, min_length_f = Some 11, max_length_f = Some 4,
           word_count_f = None, contains_character_f = None \<rparr>"
  have a: "min_length_f ?fs = Some 11" by simp
  have b: "max_length_f ?fs = Some 4" by simp
  have c: "(11::int) > 4" by simp
  from natural_language_inverted_range_accepted [OF parse_inverted a b c,
         of "[(compute_sha256 ''abc'', analyze_string ''2025-10-20T10:00:00'' ''abc'')]" None None None]
       parse_inverted
  show ?thesis by simp
qed

subsection \<open>The store\<close>


lemma digests_differ: "compute_sha256 ''hello world'' \<noteq> compute_sha256 ''abc''"
  by (simp add: sha256_abc sha256_hello_world)



text \<open>
  C7. Get and delete recompute the digest of the value they are given. When the store
  has no entry under that digest, get fails with NotFound and delete fails with
  NotFound and leaves the store as it is; and after a delete of a value has succeeded,
  a get of the same value on the resulting store fails with NotFound.
\<close>

theorem get_delete_not_found:
  "(\<not> has_key db (compute_sha256 v) \<longrightarrow>
      get_string v db = Inl NotFound \<and> delete_string v db = (Inl NotFound, db))
   \<and> (delete_string v db = (Inr resp, db') \<longrightarrow> get_string v db' = Inl NotFound)"
proof (intro conjI impI)
  assume "\<not> has_key db (compute_sha256 v)"
  then have "map_of db (compute_sha256 v) = None"
    by (simp add: has_key_def map_of_eq_None_iff)
  then show "get_string v db = Inl NotFound" by (simp add: get_string_eq)
next
  assume "\<not> has_key db (compute_sha256 v)"
  then show "delete_string v db = (Inl NotFound, db)" by (simp add: delete_string_eq)
next
  assume "delete_string v db = (Inr resp, db')"
  then have "db' = AList.delete (compute_sha256 v) db"
    by (auto simp: delete_string_eq split: if_splits)
  then have "map_of db' (compute_sha256 v) = None"
    by (simp add: delete_conv')
  then show "get_string v db' = Inl NotFound" by (simp add: get_string_eq)
qed

theorem get_delete_not_found_witness:
  "\<not> has_key [(compute_sha256 ''abc'', analyze_string ''2025-10-20T10:00:00'' ''abc'')]
         (compute_sha256 ''hello world'')
   \<and> get_string ''hello world''
        [(compute_sha256 ''abc'', analyze_string ''2025-10-20T10:00:00'' ''abc'')] = Inl NotFound
   \<and> delete_string ''hello world''
        [(compute_sha256 ''abc'', analyze_string ''2025-10-20T10:00:00'' ''abc'')]
      = (Inl NotFound, [(compute_sha256 ''abc'', analyze_string ''2025-10-20T10:00:00'' ''abc'')])
   \<and> delete_string ''hello world''
        [(compute_sha256 ''abc'', analyze_string ''2025-10-20T10:00:00'' ''abc''),
         (compute_sha256 ''hello world'', analyze_string ''2025-10-20T10:00:01'' ''hello world'')]
      = (Inr 204, [(compute_sha256 ''abc'', analyze_string ''2025-10-20T10:00:00'' ''abc'')])"
proof -
  let ?a = "(compute_sha256 ''abc'', analyze_string ''2025-10-20T10:00:00'' ''abc'')"
  let ?h = "(compute_sha256 ''hello world'', analyze_string ''2025-10-20T10:00:01'' ''hello world'')"
  have n: "\<not> has_key [?a] (compute_sha256 ''hello world'')"
    using digests_differ by (simp add: has_key_def)
  have d: "delete_string ''hello world'' [?a, ?h] = (Inr 204, [?a])"
    using digests_differ by (simp add: delete_string_eq has_key_def AList.delete_eq)
  from get_delete_not_found [of "[?a]" "''hello world''" 204 "[?a]"] n
  have "get_string ''hello world'' [?a] = Inl NotFound
        \<and> delete_string ''hello world'' [?a] = (Inl NotFound, [?a])"
    by blast
  with n d show ?thesis by simp
qed

text \<open>
  The filter engine compares the character it is given, as it is, with the lower-cased
  value: asked for "A", it drops the record of "Anna", a value that contains this very
  character.
\<close>

theorem apply_filters_upper_case_counterexample:
  "apply_filters [analyze_string ''2025-10-20T10:00:00'' ''Anna'']
      (no_filters\<lparr>contains_character_f := Some ''A''\<rparr>) = []
   \<and> filter (spec_passes (no_filters\<lparr>contains_character_f := Some ''A''\<rparr>))
        [analyze_string ''2025-10-20T10:00:00'' ''Anna'']
      = [analyze_string ''2025-10-20T10:00:00'' ''Anna'']
   \<and> contains_str ''A'' ''Anna''"
proof -
  have a: "\<not> contains_str ''A'' (lower ''Anna'')" by code_simp
  have b: "contains_str (lower ''A'') (lower ''Anna'')" by code_simp
  have c: "contains_str ''A'' ''Anna''" by code_simp
  from a b c show ?thesis
    by (simp add: apply_filters_passes passes_def spec_passes_def no_filters_def
          analyze_string_fields)
qed

text \<open>
  C2, as amended. The filter engine returns exactly the records that satisfy every
  filter present, in the order of the input; an absent key constrains nothing, and a
  filter set that no record satisfies gives the empty list, not an error. The
  predicates are those of the specification's table, except the last: the given
  character is looked up, as it is given, in the lower-cased value. The engine does not
  fold the case of the given character; its callers do. Whenever \<^verbatim>\<open>str.lower\<close>
  leaves the given character as it is, the test is the one of the table with both sides
  lower-cased; this is so for every filter set the phrase parser returns, which only
  stores letters from a to z; and the structured operation lower-cases its parameter
  before it calls the engine, so that it answers with the records whose lower-cased
  value contains the lower-cased parameter.
\<close>

theorem apply_filters_conjunction_in_order:
  "apply_filters rs fs = filter (passes fs) rs
   \<and> (lower_case_filter fs \<longrightarrow> apply_filters rs fs = filter (spec_passes fs) rs)
   \<and> (parse_natural_language_query query = Inr pfs \<longrightarrow>
        apply_filters rs pfs = filter (spec_passes pfs) rs)
   \<and> (get_all_strings is_pal min_len max_len wc contains db = Inr resp \<longrightarrow>
        data_l resp =
          filter (spec_passes \<lparr> is_palindrome_f = is_pal, min_length_f = min_len,
                                max_length_f = max_len, word_count_f = wc,
                                contains_character_f = contains \<rparr>) (map snd db))"
proof (intro conjI impI)
  show "apply_filters rs fs = filter (passes fs) rs" by (rule apply_filters_passes)
next
  assume "lower_case_filter fs"
  then show "apply_filters rs fs = filter (spec_passes fs) rs"
    by (simp add: apply_filters_passes passes_spec_passes cong: filter_cong)
next
  assume "parse_natural_language_query query = Inr pfs"
  then have "lower_case_filter pfs" by (rule parse_lower_case)
  then show "apply_filters rs pfs = filter (spec_passes pfs) rs"
    by (simp add: apply_filters_passes passes_spec_passes cong: filter_cong)
next
  assume g: "get_all_strings is_pal min_len max_len wc contains db = Inr resp"
  let ?fs = "\<lparr> is_palindrome_f = is_pal, min_length_f = min_len, max_length_f = max_len,
                word_count_f = wc, contains_character_f = map_option lower contains \<rparr>"
  let ?given = "\<lparr> is_palindrome_f = is_pal, min_length_f = min_len, max_length_f = max_len,
                   word_count_f = wc, contains_character_f = contains \<rparr>"
  have p: "\<And>r. passes ?fs r = spec_passes ?given r"
    by (cases contains) (simp_all add: passes_def spec_passes_def)
  from g have "data_l resp = apply_filters (map snd db) ?fs"
    by (auto simp: get_all_strings_def Let_def split: if_splits)
  then show "data_l resp = filter (spec_passes ?given) (map snd db)"
    by (simp add: apply_filters_passes p cong: filter_cong)
qed

theorem apply_filters_conjunction_in_order_witness:
  "lower_case_filter (no_filters\<lparr>min_length_f := Some 4, contains_character_f := Some ''z''\<rparr>)
   \<and> apply_filters
        [analyze_string ''2025-10-20T10:00:00'' ''Zebra'',
         analyze_string ''2025-10-20T10:00:01'' ''zoo'',
         analyze_string ''2025-10-20T10:00:02'' ''short'',
         analyze_string ''2025-10-20T10:00:03'' ''pizza'']
        (no_filters\<lparr>min_length_f := Some 4, contains_character_f := Some ''z''\<rparr>)
      = [analyze_string ''2025-10-20T10:00:00'' ''Zebra'',
         analyze_string ''2025-10-20T10:00:03'' ''pizza'']"
proof -
  let ?fs = "no_filters\<lparr>min_length_f := Some 4, contains_character_f := Some ''z''\<rparr>"
  let ?rs = "[analyze_string ''2025-10-20T10:00:00'' ''Zebra'',
         analyze_string ''2025-10-20T10:00:01'' ''zoo'',
         analyze_string ''2025-10-20T10:00:02'' ''short'',
         analyze_string ''2025-10-20T10:00:03'' ''pizza'']"
  have z: "lower ''z'' = ''z''" by code_simp
  then have l: "lower_case_filter ?fs" by (simp add: lower_case_filter_def no_filters_def)
  have c: "contains_str ''z'' (lower ''Zebra'')" "contains_str ''z'' (lower ''zoo'')"
          "\<not> contains_str ''z'' (lower ''short'')" "contains_str ''z'' (lower ''pizza'')"
    by code_simp+
  from apply_filters_conjunction_in_order [of ?rs ?fs] l
  have "apply_filters ?rs ?fs = filter (spec_passes ?fs) ?rs" by blast
  with l c z show ?thesis
    by (simp add: spec_passes_def no_filters_def analyze_string_fields)
qed

end
